theory Spec2Isabelle
  imports Main "HOL-Library.Sublist"
begin

section \<open>Python strings\<close>

text \<open>
  A Python \<open>str\<close> is a sequence of Unicode code points; it is modelled as a list of
  naturals, one per code point, so that \<open>length\<close> counts what \<open>len\<close> counts and the
  non-ASCII characters of the prompt templates are single elements. \<open>py\<close> embeds an
  ASCII literal.
\<close>

type_synonym pystr = "nat list"

definition py :: "string \<Rightarrow> pystr" where
  "py s = map of_char s"

text \<open>
  \<open>str.isspace\<close> on one code point: the characters that \<open>str.strip()\<close> without
  arguments removes (tab to carriage return, the four separators 0x1C to 0x1F, space,
  NEL, no-break space and the Unicode space separators).
\<close>

definition isspace :: "nat \<Rightarrow> bool" where
  "isspace c \<longleftrightarrow>
     (9 \<le> c \<and> c \<le> 13) \<or> (28 \<le> c \<and> c \<le> 32) \<or> c = 133 \<or> c = 160 \<or> c = 5760 \<or>
     (8192 \<le> c \<and> c \<le> 8202) \<or> c = 8232 \<or> c = 8233 \<or> c = 8239 \<or> c = 8287 \<or> c = 12288"

definition strip :: "pystr \<Rightarrow> pystr" where
  "strip s = rev (dropWhile isspace (rev (dropWhile isspace s)))"

text \<open>\<open>sep.join(xs)\<close>.\<close>

fun join :: "pystr \<Rightarrow> pystr list \<Rightarrow> pystr" where
  "join sep [] = []"
| "join sep [x] = x"
| "join sep (x # y # ys) = x @ sep @ join sep (y # ys)"

section \<open>Errors\<close>

text \<open>
  Every exception the three scripts can raise or let through is a value.
  \<open>FileNotFoundError\<close> and \<open>ValueError\<close> carry their message; \<open>HTTPError\<close> carries the
  status code. \<open>OSError\<close> is what \<open>Path.exists()\<close> lets through when the path cannot
  be examined (a name that is too long, a directory that may not be searched),
  \<open>PdfReadError\<close> stands for whatever \<open>PdfReader\<close> raises on a file it cannot parse,
  \<open>RequestException\<close> for a failed \<open>requests.post\<close>, \<open>JSONDecodeError\<close> for a failed
  \<open>response.json()\<close> or \<open>json.loads\<close>, and \<open>AttributeError\<close> for \<open>.get\<close> or
  \<open>.strip\<close> called on a value that has no such method. \<open>RecursionError\<close> and
  \<open>IntMaxStrDigitsError\<close> are the two errors of the interpreter that \<open>json.loads\<close>
  raises on valid or invalid text alike: nesting deeper than the stack allows, and an
  integer literal with more digits than \<open>int\<close> converts (itself a \<open>ValueError\<close>, but
  not the one the scripts raise and without their message).
\<close>

datatype error =
    FileNotFoundError pystr
  | OSError
  | PdfReadError
  | RequestException
  | HTTPError nat
  | JSONDecodeError
  | AttributeError
  | ValueError pystr
  | RecursionError
  | IntMaxStrDigitsError

section \<open>Text extraction (\<open>extract_text_from_pdf\<close>)\<close>

text \<open>
  \<open>str(Path(p))\<close> depends on the platform and is a parameter of the extraction,
  \<open>fspath\<close>. \<open>posix_fspath\<close> is what \<open>pathlib\<close> does on POSIX: the root is one slash
  (two, when the path begins with exactly two), empty components and \<open>.\<close> are dropped,
  and the empty path is \<open>.\<close>.
\<close>

fun split_sep :: "nat \<Rightarrow> pystr \<Rightarrow> pystr list" where
  "split_sep sep [] = [[]]"
| "split_sep sep (c # s) =
     (if c = sep then [] # split_sep sep s
      else (case split_sep sep s of
              [] \<Rightarrow> [[c]]
            | part # parts \<Rightarrow> (c # part) # parts))"

definition posix_fspath :: "pystr \<Rightarrow> pystr" where
  "posix_fspath p =
     (let (root, rel) =
            (if take 1 p \<noteq> py ''/'' then ([], p)
             else if take 1 (drop 1 p) \<noteq> py ''/'' \<or> take 1 (drop 2 p) = py ''/''
               then (py ''/'', drop 1 p)
             else (py ''//'', drop 2 p));
          tail = filter (\<lambda>x. x \<noteq> [] \<and> x \<noteq> py ''.'') (split_sep 47 rel);
          s = root @ join (py ''/'') tail
      in if s = [] then py ''.'' else s)"

text \<open>
  The function rebinds \<open>pdf_path\<close> to \<open>Path(pdf_path)\<close> and uses that from then on, in
  \<open>exists()\<close>, in the message and in \<open>PdfReader(str(pdf_path))\<close>. The file system
  tells, for the path as \<open>Path\<close> writes it, what \<open>Path.exists()\<close> does: it returns
  \<open>False\<close> (\<open>Missing\<close>), it raises \<open>OSError\<close> (\<open>StatFails\<close>), or it returns \<open>True\<close>,
  and then what \<open>pypdf\<close> makes of what is there: something \<open>PdfReader\<close> rejects, or a
  document given by the result of \<open>page.extract_text()\<close> for each of its pages in order
  (\<open>None\<close> for a page that yields nothing).
\<close>

datatype pdf_file = CorruptFile | PdfFile "pystr option list"

datatype path_status = Missing | StatFails | Present pdf_file

type_synonym filesystem = "pystr \<Rightarrow> path_status"

text \<open>\<open>page.extract_text() or ""\<close>\<close>

definition page_text :: "pystr option \<Rightarrow> pystr" where
  "page_text t = (case t of None \<Rightarrow> [] | Some s \<Rightarrow> if s = [] then [] else s)"

definition extract_text_from_pdf ::
  "(pystr \<Rightarrow> pystr) \<Rightarrow> filesystem \<Rightarrow> pystr \<Rightarrow> error + pystr"
where
  "extract_text_from_pdf fspath fs pdf_path =
     (let pdf_path = fspath pdf_path
      in case fs pdf_path of
           StatFails \<Rightarrow> Inl OSError
         | Missing \<Rightarrow> Inl (FileNotFoundError (py ''PDF not found: '' @ pdf_path))
         | Present CorruptFile \<Rightarrow> Inl PdfReadError
         | Present (PdfFile pages) \<Rightarrow>
             (let all_text = map page_text pages
              in Inr (strip (join (py ''\<newline>\<newline>'') all_text))))"

section \<open>Prompt construction (\<open>build_prompt\<close>)\<close>

text \<open>
  The f-string of \<open>invoiceextract.py\<close> and \<open>invoice_langsmith.py\<close> (the two are the
  same text), line by line up to the line before the quoted document, and the one of
  \<open>invoice_langsmith_v1.py\<close>. Code points 8594 and 8377 are the arrow and the rupee sign.
\<close>

definition PROMPT_LINES :: "pystr list" where
  \<open>PROMPT_LINES =
    [[],
     py ''You are an information extraction assistant.'',
     [],
     py ''You will be given the text content of a PDF document (such as an invoice, form, or statement).'',
     py ''Your task is to extract the following key fields and return a STRICT JSON object only, with no extra text:'',
     [],
     py ''Required keys:'',
     py ''- "invoice_number"'',
     py ''- "invoice_date"'',
     py ''- "customer_name"'',
     py ''- "total_amount"'',
     py ''- "currency"'',
     [],
     py ''Rules:'',
     py ''- If a field is missing or not clearly available, set its value to null.'',
     py ''- Do NOT include any additional keys.'',
     py ''- Do NOT add explanations.'',
     py ''- Output must be valid JSON only.'',
     [],
     py ''PDF TEXT:'']\<close>

definition PROMPT_LINES_V1 :: "pystr list" where
  \<open>PROMPT_LINES_V1 =
    [[],
     py ''You are an expert invoice document extraction assistant.'',
     py ''Invoices come from different vendors and fields may appear with different label names, abbreviations, or synonyms.'',
     [],
     py ''Your task is to extract the required standardized fields below.'',
     py ''Map semantically similar terms to the correct JSON key even if the wording differs.'',
     [],
     py ''Standard JSON Keys & Example Synonyms:'',
     [],
     py ''1. "invoice_number"  '' @ [8594] @ py '' Invoice No, INV No, Bill No, Invoice ID, INV ID, Reference No, Ref#'',
     py ''2. "invoice_date"    '' @ [8594] @ py '' Date, Invoice Date, Bill Date, Issue Date'',
     py ''3. "customer_name"   '' @ [8594] @ py '' Customer, Client, Buyer, Billed To, Sold To'',
     py ''4. "total_amount"    '' @ [8594] @ py '' Total, Amount Due, Grand Total, Total Payable, Cost, Final Amount'',
     py ''5. "tax_amount"      '' @ [8594] @ py '' GST, VAT, TAX Value, Tax Amount'',
     py ''6. "currency"        '' @ [8594] @ py '' Currency, INR, USD, $, '' @ [8377] @ py '' symbol in front of number'',
     [],
     py ''OUTPUT RULES:'',
     py ''- Output MUST be ONLY a valid JSON object containing the keys above.'',
     py ''- If a value is missing or unclear, return null.'',
     py ''- Do NOT include any explanation text outside JSON.'',
     py ''- Extract values based on semantic meaning, not keyword matching.'',
     [],
     py ''DOCUMENT CONTENT:'']\<close>

definition FENCE :: pystr where
  \<open>FENCE = py ''"""''\<close>

definition render_prompt :: "pystr list \<Rightarrow> pystr \<Rightarrow> pystr" where
  "render_prompt lines pdf_text =
     join (py ''\<newline>'') lines @ py ''\<newline>'' @ FENCE @ pdf_text @ FENCE @ py ''\<newline>''"

definition build_prompt :: "pystr \<Rightarrow> pystr" where
  "build_prompt pdf_text = render_prompt PROMPT_LINES pdf_text"

definition build_prompt_v1 :: "pystr \<Rightarrow> pystr" where
  "build_prompt_v1 pdf_text = render_prompt PROMPT_LINES_V1 pdf_text"

text \<open>The keys the prompts name as required.\<close>

definition REQUIRED_KEYS :: "pystr list" where
  "REQUIRED_KEYS =
     [py ''invoice_number'', py ''invoice_date'', py ''customer_name'', py ''total_amount'',
      py ''currency'']"


section \<open>JSON values and \<open>json.loads\<close>\<close>

text \<open>
  The value \<open>json.loads\<close> returns: \<open>None\<close>, a \<open>bool\<close>, an \<open>int\<close>, a \<open>float\<close>, a
  \<open>str\<close>, a \<open>list\<close> or a \<open>dict\<close> with string keys. A dict keeps its keys in
  insertion order and is an association list with distinct keys. Floats are the type
  parameter \<open>'f\<close>: the decoder hands the matched literal to \<open>float\<close>, here the
  parameter \<open>parse_float\<close>, and nothing below looks inside the result.
\<close>

datatype 'f json =
    JNull
  | JBool bool
  | JInt int
  | JFloat 'f
  | JStr pystr
  | JArr "'f json list"
  | JObj "(pystr \<times> 'f json) list"

text \<open>
  The decoder of the standard library, with its default arguments (strict, the
  constants \<open>NaN\<close>, \<open>Infinity\<close> and \<open>-Infinity\<close> accepted). Every function reads a
  prefix of its input and returns what follows it; for the string and number matchers
  \<open>None\<close> is no match, which the scanner turns into \<open>JSONDecodeError\<close>.
\<close>

definition is_ws :: "nat \<Rightarrow> bool" where
  "is_ws c \<longleftrightarrow> c = 32 \<or> c = 9 \<or> c = 10 \<or> c = 13"

definition skip_ws :: "pystr \<Rightarrow> pystr" where
  "skip_ws s = dropWhile is_ws s"

definition is_digit :: "nat \<Rightarrow> bool" where
  "is_digit c \<longleftrightarrow> 48 \<le> c \<and> c \<le> 57"

definition hex_val :: "nat \<Rightarrow> nat option" where
  "hex_val c =
     (if 48 \<le> c \<and> c \<le> 57 then Some (c - 48)
      else if 97 \<le> c \<and> c \<le> 102 then Some (c - 87)
      else if 65 \<le> c \<and> c \<le> 70 then Some (c - 55)
      else None)"

definition decode_uXXXX :: "pystr \<Rightarrow> (nat \<times> pystr) option" where
  "decode_uXXXX s =
     (if length s < 4 then None
      else case map hex_val (take 4 s) of
             [Some x, Some y, Some z, Some w] \<Rightarrow> Some (((x * 16 + y) * 16 + z) * 16 + w, drop 4 s)
           | _ \<Rightarrow> None)"

lemma decode_uXXXX_length: "decode_uXXXX s = Some (uni, r) \<Longrightarrow> length s = length r + 4"
  by (auto simp: decode_uXXXX_def split: if_splits list.splits option.splits)

definition BACKSLASH :: "nat \<Rightarrow> nat option" where
  "BACKSLASH esc =
     (if esc = 34 then Some 34
      else if esc = 92 then Some 92
      else if esc = 47 then Some 47
      else if esc = 98 then Some 8
      else if esc = 102 then Some 12
      else if esc = 110 then Some 10
      else if esc = 114 then Some 13
      else if esc = 116 then Some 9
      else None)"

definition append_char :: "nat \<Rightarrow> (pystr \<times> pystr) option \<Rightarrow> (pystr \<times> pystr) option" where
  "append_char c r = (case r of None \<Rightarrow> None | Some (chunks, rest) \<Rightarrow> Some (c # chunks, rest))"

function scanstring :: "pystr \<Rightarrow> (pystr \<times> pystr) option" where
  "scanstring [] = None"
| "scanstring (c # s) =
     (if c = 34 then Some ([], s)
      else if c = 92 then
        (case s of
           [] \<Rightarrow> None
         | esc # s1 \<Rightarrow>
             if esc \<noteq> 117 then
               (case BACKSLASH esc of
                  None \<Rightarrow> None
                | Some ch \<Rightarrow> append_char ch (scanstring s1))
             else
               (case decode_uXXXX s1 of
                  None \<Rightarrow> None
                | Some (uni, s2) \<Rightarrow>
                    if 0xD800 \<le> uni \<and> uni \<le> 0xDBFF \<and> take 2 s2 = [92, 117] then
                      (case decode_uXXXX (drop 2 s2) of
                         None \<Rightarrow> None
                       | Some (uni2, s3) \<Rightarrow>
                           if 0xDC00 \<le> uni2 \<and> uni2 \<le> 0xDFFF then
                             append_char (0x10000 + ((uni - 0xD800) * 1024 + (uni2 - 0xDC00)))
                               (scanstring s3)
                           else append_char uni (scanstring s2))
                    else append_char uni (scanstring s2)))
      else if c < 32 then None
      else append_char c (scanstring s))"
  by pat_completeness auto
termination
  by (relation "measure length") (auto dest!: decode_uXXXX_length)


definition int_of_digits :: "pystr \<Rightarrow> int" where
  "int_of_digits ds = foldl (\<lambda>acc d. acc * 10 + (int d - 48)) 0 ds"

definition parse_int :: "pystr \<Rightarrow> int" where
  "parse_int lexeme =
     (case lexeme of
        [] \<Rightarrow> 0
      | c # ds \<Rightarrow> if c = 45 then - int_of_digits ds else int_of_digits (c # ds))"

definition match_exponent :: "pystr \<Rightarrow> pystr \<times> pystr" where
  "match_exponent s =
     (case s of
        [] \<Rightarrow> ([], s)
      | e # s1 \<Rightarrow>
          if e = 101 \<or> e = 69 then
            (let sg = (if take 1 s1 = [45] \<or> take 1 s1 = [43] then take 1 s1 else []);
                 s2 = drop (length sg) s1
             in if takeWhile is_digit s2 = [] then ([], s)
                else (e # sg @ takeWhile is_digit s2, dropWhile is_digit s2))
          else ([], s))"

definition match_fraction :: "pystr \<Rightarrow> pystr \<times> pystr" where
  "match_fraction s =
     (case s of
        [] \<Rightarrow> ([], s)
      | d # s1 \<Rightarrow>
          if d = 46 \<and> takeWhile is_digit s1 \<noteq> [] then
            (d # takeWhile is_digit s1, dropWhile is_digit s1)
          else ([], s))"

definition match_integer :: "pystr \<Rightarrow> (pystr \<times> pystr) option" where
  "match_integer s =
     (let sg = (if take 1 s = [45] then [45] else []);
          s1 = drop (length sg) s
      in case s1 of
           [] \<Rightarrow> None
         | d # s2 \<Rightarrow>
             if d = 48 then Some (sg @ [48], s2)
             else if 49 \<le> d \<and> d \<le> 57 then
               Some (sg @ d # takeWhile is_digit s2, dropWhile is_digit s2)
             else None)"

definition match_number :: "pystr \<Rightarrow> (pystr \<times> pystr \<times> pystr \<times> pystr) option" where
  "match_number s =
     (case match_integer s of
        None \<Rightarrow> None
      | Some (integer, s1) \<Rightarrow>
          (let (frac, s2) = match_fraction s1;
               (exp, s3) = match_exponent s2
           in Some (integer, frac, exp, s3)))"

fun dict_setitem :: "(pystr \<times> 'v) list \<Rightarrow> pystr \<Rightarrow> 'v \<Rightarrow> (pystr \<times> 'v) list" where
  "dict_setitem [] k v = [(k, v)]"
| "dict_setitem ((k', v') # d) k v =
     (if k' = k then (k', v) # d else (k', v') # dict_setitem d k v)"

definition dict :: "(pystr \<times> 'v) list \<Rightarrow> (pystr \<times> 'v) list" where
  "dict pairs = foldl (\<lambda>d (k, v). dict_setitem d k v) [] pairs"

lemma skip_ws_length: "length (skip_ws s) \<le> length s"
  by (simp add: skip_ws_def length_dropWhile_le)

lemma skip_ws_Cons_length: "skip_ws s = c # r \<Longrightarrow> length r < length s"
  using skip_ws_length [of s] by simp

lemma match_integer_length:
  "match_integer s = Some (i, r) \<Longrightarrow> length r < length s"
  by (cases s)
     (auto simp: match_integer_def Let_def less_Suc_eq_le length_dropWhile_le
           intro: le_trans [OF length_dropWhile_le]
           split: if_splits list.splits)

lemma match_fraction_length:
  "match_fraction s = (f, r) \<Longrightarrow> length r \<le> length s"
  by (auto simp: match_fraction_def le_Suc_eq length_dropWhile_le split: if_splits list.splits)

lemma match_exponent_length:
  "match_exponent s = (e, r) \<Longrightarrow> length r \<le> length s"
  by (auto simp: match_exponent_def Let_def
           intro!: le_trans [OF length_dropWhile_le] split: if_splits list.splits)

lemma match_number_length:
  "match_number s = Some (i, f, e, r) \<Longrightarrow> length r < length s"
  by (auto simp: match_number_def Let_def split: option.splits prod.splits
           dest!: match_integer_length match_fraction_length match_exponent_length)

lemma append_char_Some:
  "append_char c r = Some (str, rest) \<longleftrightarrow> (\<exists>str'. r = Some (str', rest) \<and> str = c # str')"
  by (auto simp: append_char_def split: option.splits)

lemma scanstring_length:
  "scanstring s = Some (str, r) \<Longrightarrow> length r < length s"
proof (induction s arbitrary: str r rule: scanstring.induct)
  case 1
  then show ?case by simp
next
  case (2 c s)
  show ?case
    using "2.prems" "2.IH"
    by (fastforce simp: append_char_Some split: if_splits list.splits option.splits prod.splits
          dest!: decode_uXXXX_length)
qed

text \<open>
  Two limits of the interpreter decide what \<open>json.loads\<close> does besides the grammar. The
  scanner enters every object and array through a recursive call, and raises
  \<open>RecursionError\<close> when the stack has no room for it: \<open>nesting_headroom\<close> is the number
  of containers it can enter inside the outermost one. The outermost one it can always
  enter: \<open>json.loads\<close> is called where \<open>requests.post\<close> and \<open>response.json()\<close>, which
  go deeper, have just returned. \<open>int\<close> refuses a literal of more than
  \<open>sys.get_int_max_str_digits()\<close> digits (4300 unless changed, 0 for no limit).
\<close>

record interpreter =
  nesting_headroom :: nat
  int_max_str_digits :: nat

definition int_too_long :: "interpreter \<Rightarrow> pystr \<Rightarrow> bool" where
  "int_too_long interp integer \<longleftrightarrow>
     0 < int_max_str_digits interp \<and>
     int_max_str_digits interp < length (filter is_digit integer)"

text \<open>
  \<open>scan_once\<close> reads one value; \<open>depth\<close> is the number of containers it may still
  enter. The two loops are the \<open>while\<close> loops of \<open>JSONArray\<close> and \<open>JSONObject\<close>, entered
  at the first value and just after the opening quote of the first key.
\<close>

function scan_once ::
    "interpreter \<Rightarrow> (pystr \<Rightarrow> 'f) \<Rightarrow> nat \<Rightarrow> pystr \<Rightarrow> error + ('f json \<times> pystr)"
  and JSONArray_loop ::
    "interpreter \<Rightarrow> (pystr \<Rightarrow> 'f) \<Rightarrow> nat \<Rightarrow> pystr \<Rightarrow> error + ('f json list \<times> pystr)"
  and JSONObject_loop ::
    "interpreter \<Rightarrow> (pystr \<Rightarrow> 'f) \<Rightarrow> nat \<Rightarrow> pystr
       \<Rightarrow> error + ((pystr \<times> 'f json) list \<times> pystr)"
where
  "scan_once interp parse_float depth [] = Inl JSONDecodeError"
| "scan_once interp parse_float depth (nextchar # s) =
     (if nextchar = 34 then
        (case scanstring s of
           None \<Rightarrow> Inl JSONDecodeError
         | Some (str, rest) \<Rightarrow> Inr (JStr str, rest))
      else if nextchar = 123 then
        (case depth of
           0 \<Rightarrow> Inl RecursionError
         | Suc depth' \<Rightarrow>
             (case skip_ws s of
                [] \<Rightarrow> Inl JSONDecodeError
              | c # s1 \<Rightarrow>
                  if c = 125 then Inr (JObj [], s1)
                  else if c = 34 then
                    (case JSONObject_loop interp parse_float depth' s1 of
                       Inl e \<Rightarrow> Inl e
                     | Inr (pairs, rest) \<Rightarrow> Inr (JObj (dict pairs), rest))
                  else Inl JSONDecodeError))
      else if nextchar = 91 then
        (case depth of
           0 \<Rightarrow> Inl RecursionError
         | Suc depth' \<Rightarrow>
             (case skip_ws s of
                [] \<Rightarrow> Inl JSONDecodeError
              | c # s1 \<Rightarrow>
                  if c = 93 then Inr (JArr [], s1)
                  else
                    (case JSONArray_loop interp parse_float depth' (c # s1) of
                       Inl e \<Rightarrow> Inl e
                     | Inr (values, rest) \<Rightarrow> Inr (JArr values, rest))))
      else if nextchar = 110 \<and> take 3 s = py ''ull'' then Inr (JNull, drop 3 s)
      else if nextchar = 116 \<and> take 3 s = py ''rue'' then Inr (JBool True, drop 3 s)
      else if nextchar = 102 \<and> take 4 s = py ''alse'' then Inr (JBool False, drop 4 s)
      else
        (case match_number (nextchar # s) of
           Some (integer, frac, exp, rest) \<Rightarrow>
             if frac \<noteq> [] \<or> exp \<noteq> [] then
               Inr (JFloat (parse_float (integer @ frac @ exp)), rest)
             else if int_too_long interp integer then Inl IntMaxStrDigitsError
             else Inr (JInt (parse_int integer), rest)
         | None \<Rightarrow>
             if nextchar = 78 \<and> take 2 s = py ''aN'' then
               Inr (JFloat (parse_float (py ''nan'')), drop 2 s)
             else if nextchar = 73 \<and> take 7 s = py ''nfinity'' then
               Inr (JFloat (parse_float (py ''inf'')), drop 7 s)
             else if nextchar = 45 \<and> take 8 s = py ''Infinity'' then
               Inr (JFloat (parse_float (py ''-inf'')), drop 8 s)
             else Inl JSONDecodeError))"
| "JSONArray_loop interp parse_float depth s =
     (case scan_once interp parse_float depth s of
        Inl e \<Rightarrow> Inl e
      | Inr (v, s1) \<Rightarrow>
          (case skip_ws s1 of
             [] \<Rightarrow> Inl JSONDecodeError
           | c # s2 \<Rightarrow>
               if c = 93 then Inr ([v], s2)
               else if c \<noteq> 44 then Inl JSONDecodeError
               else
                 (case JSONArray_loop interp parse_float depth (skip_ws s2) of
                    Inl e \<Rightarrow> Inl e
                  | Inr (values, rest) \<Rightarrow> Inr (v # values, rest))))"
| "JSONObject_loop interp parse_float depth s =
     (case scanstring s of
        None \<Rightarrow> Inl JSONDecodeError
      | Some (key, s1) \<Rightarrow>
          (case skip_ws s1 of
             [] \<Rightarrow> Inl JSONDecodeError
           | c # s2 \<Rightarrow>
               if c \<noteq> 58 then Inl JSONDecodeError
               else
                 (case scan_once interp parse_float depth (skip_ws s2) of
                    Inl e \<Rightarrow> Inl e
                  | Inr (v, s3) \<Rightarrow>
                      (case skip_ws s3 of
                         [] \<Rightarrow> Inl JSONDecodeError
                       | d # s4 \<Rightarrow>
                           if d = 125 then Inr ([(key, v)], s4)
                           else if d \<noteq> 44 then Inl JSONDecodeError
                           else
                             (case skip_ws s4 of
                                [] \<Rightarrow> Inl JSONDecodeError
                              | q # s5 \<Rightarrow>
                                  if q \<noteq> 34 then Inl JSONDecodeError
                                  else
                                    (case JSONObject_loop interp parse_float depth s5 of
                                       Inl e \<Rightarrow> Inl e
                                     | Inr (pairs, rest) \<Rightarrow>
                                         Inr ((key, v) # pairs, rest)))))))"
  by pat_completeness auto

lemma scan_once_length_aux:
  "scan_once_JSONArray_loop_JSONObject_loop_dom (Inl (interp, pf, depth, s)) \<Longrightarrow>
     scan_once interp pf depth s = Inr (v, r) \<Longrightarrow> length r < length s"
  "scan_once_JSONArray_loop_JSONObject_loop_dom (Inr (Inl (interp, pf, depth, s))) \<Longrightarrow>
     JSONArray_loop interp pf depth s = Inr (vs, r) \<Longrightarrow> length r < length s"
  "scan_once_JSONArray_loop_JSONObject_loop_dom (Inr (Inr (interp, pf, depth, s))) \<Longrightarrow>
     JSONObject_loop interp pf depth s = Inr (ps, r) \<Longrightarrow> length r < length s"
proof (induction interp pf depth s and interp pf depth s and interp pf depth s
       arbitrary: v r and vs r and ps r
       rule: scan_once_JSONArray_loop_JSONObject_loop.pinduct)
  case (1 interp pf depth)
  then show ?case by (simp add: scan_once.psimps)
next
  case (2 interp pf depth nextchar s)
  note eq = scan_once.psimps(2) [OF "2.hyps"]
  show ?case
  proof (cases "nextchar = 34")
    case True
    with "2.prems" [unfolded eq] show ?thesis
      by (auto split: option.splits dest!: scanstring_length)
  next
    case n34: False
    show ?thesis
    proof (cases "nextchar = 123")
      case True
      with n34 "2.prems" [unfolded eq] obtain depth' c s1 where dp: "depth = Suc depth'"
        and sk: "skip_ws s = c # s1"
        and body: "(c = 125 \<and> r = s1) \<or>
                   (c \<noteq> 125 \<and> c = 34 \<and>
                     (\<exists>ps. JSONObject_loop interp pf depth' s1 = Inr (ps, r)))"
        by (auto split: list.splits if_splits sum.splits nat.splits)
      have "length s1 < length s" using sk by (rule skip_ws_Cons_length)
      moreover have "length r \<le> length s1"
        using body "2.IH"(1) [OF n34 True dp sk] by (auto intro: less_imp_le)
      ultimately show ?thesis by simp
    next
      case n123: False
      show ?thesis
      proof (cases "nextchar = 91")
        case True
        with n34 n123 "2.prems" [unfolded eq] obtain depth' c s1 where dp: "depth = Suc depth'"
          and sk: "skip_ws s = c # s1"
          and body: "(c = 93 \<and> r = s1) \<or>
                     (c \<noteq> 93 \<and> (\<exists>vs. JSONArray_loop interp pf depth' (c # s1) = Inr (vs, r)))"
          by (auto split: list.splits if_splits sum.splits nat.splits)
        have "length s1 < length s" using sk by (rule skip_ws_Cons_length)
        moreover have "length r \<le> length s1"
          using body "2.IH"(2) [OF n34 n123 True dp sk] by (auto simp: less_Suc_eq_le)
        ultimately show ?thesis by simp
      next
        case False
        with n34 n123 "2.prems" [unfolded eq] show ?thesis
          by (auto simp: less_Suc_eq_le split: if_splits option.splits prod.splits
                   dest!: match_number_length)
      qed
    qed
  qed
next
  case (3 interp pf depth s)
  note eq = JSONArray_loop.psimps [OF "3.hyps"]
  from "3.prems" [unfolded eq] obtain v s1 c s2
    where so: "scan_once interp pf depth s = Inr (v, s1)"
    and sk: "skip_ws s1 = c # s2"
    and body: "(c = 93 \<and> r = s2) \<or>
               (c \<noteq> 93 \<and> \<not> c \<noteq> 44 \<and>
                 (\<exists>vs'. JSONArray_loop interp pf depth (skip_ws s2) = Inr (vs', r)))"
    by (auto split: list.splits if_splits sum.splits)
  have l1: "length s1 < length s" using "3.IH"(1) [OF so] .
  have l2: "length s2 < length s1" using sk by (rule skip_ws_Cons_length)
  have "length r \<le> length s2"
    using body "3.IH"(2) [OF so refl sk] skip_ws_length [of s2] by (auto intro: less_imp_le)
  with l1 l2 show ?case by simp
next
  case (4 interp pf depth s)
  note eq = JSONObject_loop.psimps [OF "4.hyps"]
  from "4.prems" [unfolded eq] obtain key s1 c s2 v s3 d s4
    where ss: "scanstring s = Some (key, s1)"
    and sk1: "skip_ws s1 = c # s2" and c58: "\<not> c \<noteq> 58"
    and so: "scan_once interp pf depth (skip_ws s2) = Inr (v, s3)"
    and sk3: "skip_ws s3 = d # s4"
    and body: "(d = 125 \<and> r = s4) \<or>
               (d \<noteq> 125 \<and> \<not> d \<noteq> 44 \<and>
                 (\<exists>q s5 ps'. skip_ws s4 = q # s5 \<and> \<not> q \<noteq> 34 \<and>
                    JSONObject_loop interp pf depth s5 = Inr (ps', r)))"
    by (auto split: list.splits if_splits option.splits sum.splits)
  have l1: "length s1 < length s" using ss by (rule scanstring_length)
  have l2: "length s2 < length s1" using sk1 by (rule skip_ws_Cons_length)
  have l3: "length s3 < length (skip_ws s2)" using "4.IH"(1) [OF ss refl sk1 c58 so] .
  have l4: "length s4 < length s3" using sk3 by (rule skip_ws_Cons_length)
  have "length r \<le> length s4"
  proof -
    from body show ?thesis
    proof
      assume "d = 125 \<and> r = s4"
      then show ?thesis by simp
    next
      assume b: "d \<noteq> 125 \<and> \<not> d \<noteq> 44 \<and>
                 (\<exists>q s5 ps'. skip_ws s4 = q # s5 \<and> \<not> q \<noteq> 34 \<and>
                    JSONObject_loop interp pf depth s5 = Inr (ps', r))"
      then obtain q s5 ps' where sk4: "skip_ws s4 = q # s5" and q34: "\<not> q \<noteq> 34"
        and lp: "JSONObject_loop interp pf depth s5 = Inr (ps', r)" by blast
      from b have d1: "d \<noteq> 125" and d2: "\<not> d \<noteq> 44" by simp_all
      have "length r < length s5"
        using "4.IH"(2) [OF ss refl sk1 c58 so refl sk3 d1 d2 sk4 q34 lp] .
      moreover have "length s5 < length s4" using sk4 by (rule skip_ws_Cons_length)
      ultimately show ?thesis by simp
    qed
  qed
  with l1 l2 l3 l4 skip_ws_length [of s2] show ?case by simp
qed

termination scan_once
proof (relation "measure (\<lambda>x. case x of
          Inl (interp, pf, depth, s) \<Rightarrow> 2 * length s
        | Inr (Inl (interp, pf, depth, s)) \<Rightarrow> 2 * length s + 1
        | Inr (Inr (interp, pf, depth, s)) \<Rightarrow> 2 * length s + 1)", goal_cases)
  case 1
  show ?case by simp
next
  case (2 interp pf depth nextchar s depth' c s1)
  then show ?case using skip_ws_Cons_length [of s c s1] by simp
next
  case (3 interp pf depth nextchar s depth' c s1)
  then show ?case using skip_ws_Cons_length [of s c s1] by simp
next
  case (4 interp pf depth s)
  show ?case by simp
next
  case (5 interp pf depth s b v s1 c s2)
  then show ?case
    using scan_once_length_aux(1) [of interp pf depth s v s1] skip_ws_Cons_length [of s1 c s2]
      skip_ws_length [of s2] by simp
next
  case (6 interp pf depth s x2 key s1 c s2)
  then show ?case
    using scanstring_length [of s key s1] skip_ws_Cons_length [of s1 c s2]
      skip_ws_length [of s2] by simp
next
  case (7 interp pf depth s x2 key s1 c s2 b v s3 d s4 q s5)
  then show ?case
    using scanstring_length [of s key s1] skip_ws_Cons_length [of s1 c s2]
      skip_ws_length [of s2] scan_once_length_aux(1) [of interp pf depth "skip_ws s2" v s3]
      skip_ws_Cons_length [of s3 d s4] skip_ws_Cons_length [of s4 q s5] by simp
qed

declare scan_once.simps [simp del] JSONArray_loop.simps [simp del] JSONObject_loop.simps [simp del]

text \<open>
  \<open>json.loads(s)\<close> for a \<open>str\<close>: a leading byte-order mark is refused, white space is
  skipped on both sides of the one value, and anything after it is an error.
\<close>

definition json_loads :: "interpreter \<Rightarrow> (pystr \<Rightarrow> 'f) \<Rightarrow> pystr \<Rightarrow> error + 'f json" where
  "json_loads interp parse_float s =
     (if take 1 s = [0xFEFF] then Inl JSONDecodeError
      else case scan_once interp parse_float (Suc (nesting_headroom interp)) (skip_ws s) of
             Inl e \<Rightarrow> Inl e
           | Inr (obj, rest) \<Rightarrow> if skip_ws rest = [] then Inr obj else Inl JSONDecodeError)"

section \<open>The model call (\<open>call_ollama_llama32\<close>)\<close>

definition OLLAMA_URL :: pystr where
  "OLLAMA_URL = py ''http://localhost:11434/api/chat''"

definition MODEL_NAME :: pystr where
  "MODEL_NAME = py ''llama3.2''"

text \<open>The JSON body of the request: the model, the messages as (role, content), the flag.\<close>

record payload =
  model :: pystr
  messages :: "(pystr \<times> pystr) list"
  stream :: bool

text \<open>
  What \<open>requests.post\<close> does is the endpoint's business: it fails to connect, or it
  answers with a status code and a body, the body given by what \<open>response.json()\<close>
  makes of it (\<open>None\<close> when the body is not JSON). The network is a function from the
  request to this outcome, and every request made is appended to a log.
\<close>

datatype 'f response = ConnectionFailed | Response nat "'f json option"

type_synonym request = "pystr \<times> payload"

type_synonym 'f network = "pystr \<Rightarrow> payload \<Rightarrow> 'f response"

text \<open>\<open>d.get(key, default)\<close>; a value that is not a dict has no \<open>get\<close>.\<close>

definition dict_get :: "'f json \<Rightarrow> pystr \<Rightarrow> 'f json \<Rightarrow> error + 'f json" where
  "dict_get d key dflt =
     (case d of
        JObj kvs \<Rightarrow> Inr (case map_of kvs key of None \<Rightarrow> dflt | Some v \<Rightarrow> v)
      | _ \<Rightarrow> Inl AttributeError)"

text \<open>\<open>data.get("message", {}).get("content", "").strip()\<close>\<close>

definition model_text_of :: "'f json \<Rightarrow> error + pystr" where
  "model_text_of data =
     (case dict_get data (py ''message'') (JObj []) of
        Inl e \<Rightarrow> Inl e
      | Inr message \<Rightarrow>
          (case dict_get message (py ''content'') (JStr []) of
             Inl e \<Rightarrow> Inl e
           | Inr (JStr content) \<Rightarrow> Inr (strip content)
           | Inr _ \<Rightarrow> Inl AttributeError))"

text \<open>The \<open>payload\<close> dictionary built from the prompt.\<close>

definition chat_payload :: "pystr \<Rightarrow> payload" where
  "chat_payload prompt =
     \<lparr>model = MODEL_NAME,
      messages =
        [(py ''system'', py ''You extract structured data and respond ONLY with JSON.''),
         (py ''user'', prompt)],
      stream = False\<rparr>"

text \<open>\<open>response.raise_for_status()\<close> raises for a status from 400 to 599.\<close>

definition is_error_status :: "nat \<Rightarrow> bool" where
  "is_error_status status \<longleftrightarrow> 400 \<le> status \<and> status < 600"

text \<open>The message of the \<open>ValueError\<close> raised for text that is not JSON.\<close>

definition invalid_json_message :: "pystr \<Rightarrow> pystr" where
  "invalid_json_message model_text =
     py ''Model did not return valid JSON. Raw output:\<newline>'' @ model_text"

text \<open>
  \<open>except json.JSONDecodeError\<close> catches that error alone: whatever else
  \<open>json.loads\<close> raises leaves the function as it is.
\<close>

definition call_ollama_llama32 ::
  "interpreter \<Rightarrow> (pystr \<Rightarrow> 'f) \<Rightarrow> 'f network \<Rightarrow> pystr \<Rightarrow> request list
     \<Rightarrow> (error + 'f json) \<times> request list"
where
  "call_ollama_llama32 interp parse_float net prompt log =
     (let payload = chat_payload prompt;
          log' = log @ [(OLLAMA_URL, payload)]
      in case net OLLAMA_URL payload of
           ConnectionFailed \<Rightarrow> (Inl RequestException, log')
         | Response status body \<Rightarrow>
             if is_error_status status then (Inl (HTTPError status), log')
             else
               (case body of
                  None \<Rightarrow> (Inl JSONDecodeError, log')
                | Some data \<Rightarrow>
                    (case model_text_of data of
                       Inl e \<Rightarrow> (Inl e, log')
                     | Inr model_text \<Rightarrow>
                         (case json_loads interp parse_float model_text of
                            Inl e \<Rightarrow>
                              if e = JSONDecodeError then
                                (Inl (ValueError (invalid_json_message model_text)), log')
                              else (Inl e, log')
                          | Inr result \<Rightarrow> (Inr result, log')))))"

text \<open>
  What the \<open>try\<close> statement makes of the outcome of \<open>json.loads\<close>, for stating
  what the call returns.
\<close>

definition parse_outcome :: "pystr \<Rightarrow> error + 'f json \<Rightarrow> error + 'f json" where
  "parse_outcome model_text r =
     (case r of
        Inl e \<Rightarrow> if e = JSONDecodeError then Inl (ValueError (invalid_json_message model_text))
                 else Inl e
      | Inr result \<Rightarrow> Inr result)"

section \<open>The pipeline (\<open>extract_key_values_from_pdf\<close>)\<close>

text \<open>
  The three scripts compose the same three calls; they differ in the prompt, which is a
  parameter here. The result is paired with the log of requests made.
\<close>

definition pipeline ::
  "(pystr \<Rightarrow> pystr) \<Rightarrow> interpreter \<Rightarrow> (pystr \<Rightarrow> 'f) \<Rightarrow> (pystr \<Rightarrow> pystr) \<Rightarrow> filesystem
     \<Rightarrow> 'f network \<Rightarrow> pystr \<Rightarrow> request list \<Rightarrow> (error + 'f json) \<times> request list"
where
  "pipeline prompt_of interp parse_float fspath fs net pdf_path log =
     (case extract_text_from_pdf fspath fs pdf_path of
        Inl e \<Rightarrow> (Inl e, log)
      | Inr pdf_text \<Rightarrow> call_ollama_llama32 interp parse_float net (prompt_of pdf_text) log)"

definition extract_key_values_from_pdf ::
  "interpreter \<Rightarrow> (pystr \<Rightarrow> 'f) \<Rightarrow> (pystr \<Rightarrow> pystr) \<Rightarrow> filesystem \<Rightarrow> 'f network \<Rightarrow> pystr
     \<Rightarrow> request list \<Rightarrow> (error + 'f json) \<times> request list"
where
  "extract_key_values_from_pdf = pipeline build_prompt"

definition extract_key_values_from_pdf_v1 ::
  "interpreter \<Rightarrow> (pystr \<Rightarrow> 'f) \<Rightarrow> (pystr \<Rightarrow> pystr) \<Rightarrow> filesystem \<Rightarrow> 'f network \<Rightarrow> pystr
     \<Rightarrow> request list \<Rightarrow> (error + 'f json) \<times> request list"
where
  "extract_key_values_from_pdf_v1 = pipeline build_prompt_v1"

section \<open>Sample inputs and the spec's own notions\<close>

text \<open>
  An answer of the endpoint in the shape \<open>/api/chat\<close> gives it without streaming: a
  JSON object whose \<open>message\<close> holds the role and the content. \<open>ollama_reply\<close> is
  the network that answers every request this way with status 200.
\<close>

definition reply_message :: "pystr \<Rightarrow> (pystr \<times> 'f json) list" where
  "reply_message content = [(py ''role'', JStr (py ''assistant'')), (py ''content'', JStr content)]"

definition reply_body :: "pystr \<Rightarrow> (pystr \<times> 'f json) list" where
  "reply_body content =
     [(py ''model'', JStr MODEL_NAME), (py ''message'', JObj (reply_message content)),
      (py ''done'', JBool True)]"

definition ollama_reply :: "pystr \<Rightarrow> 'f network" where
  "ollama_reply content url p = Response 200 (Some (JObj (reply_body content)))"

text \<open>
  An interpreter with the limits CPython ships: 4300 digits, and a recursion limit of
  1000. The frames already on the stack leave \<open>json.loads\<close> less than that, so 1000
  levels inside the outermost container is more than a run with this limit has.
\<close>

definition CPYTHON :: interpreter where
  "CPYTHON = \<lparr>nesting_headroom = 1000, int_max_str_digits = 4300\<rparr>"

text \<open>
  A disk that holds no file, on a system whose file names have at most 255 characters:
  a path with a longer component cannot be examined (\<open>ENAMETOOLONG\<close>), every other
  path is missing.
\<close>

definition NAME_MAX :: nat where
  "NAME_MAX = 255"

definition EMPTY_DISK :: filesystem where
  "EMPTY_DISK p =
     (if list_ex (\<lambda>name. NAME_MAX < length name) (split_sep 47 p) then StatFails else Missing)"

text \<open>A file system with a one-page invoice at every path.\<close>

definition ONE_PAGE :: filesystem where
  "ONE_PAGE p = Present (PdfFile [Some (py ''Invoice INV-001'')])"

text \<open>\<open>n + 1\<close> arrays, one inside the other: the value of \<open>[[\<dots>[]\<dots>]]\<close>.\<close>

fun nested_arrays :: "nat \<Rightarrow> 'f json" where
  "nested_arrays 0 = JArr []"
| "nested_arrays (Suc n) = JArr [nested_arrays n]"

text \<open>The response text of the spec's five-key scenario.\<close>

definition INVOICE_JSON :: pystr where
  \<open>INVOICE_JSON = py ''{"invoice_number": "INV-001", "invoice_date": null, "customer_name": "Acme", "total_amount": 100.5, "currency": "USD"}''\<close>

text \<open>The keys of a result, in the order of the dict; no keys for what is not a dict.\<close>

definition json_keys :: "'f json \<Rightarrow> pystr list" where
  "json_keys v = (case v of JObj kvs \<Rightarrow> map fst kvs | _ \<Rightarrow> [])"

text \<open>
  The spec's recovery heuristic, in the spec's words (the code has no counterpart): the
  part of the text from the first opening brace to the last closing brace.
\<close>

definition spec_recovery_candidate :: "pystr \<Rightarrow> pystr" where
  "spec_recovery_candidate s =
     rev (dropWhile (\<lambda>c. c \<noteq> 125) (rev (dropWhile (\<lambda>c. c \<noteq> 123) s)))"

text \<open>
  The spec's description of the extracted text: the page texts in order, each page after
  the first preceded by a blank line.
\<close>

fun blank_line_joined :: "pystr list \<Rightarrow> pystr" where
  "blank_line_joined [] = []"
| "blank_line_joined (p # ps) = p @ concat (map (\<lambda>q. py ''\<newline>\<newline>'' @ q) ps)"






section \<open>Properties\<close>

subsection \<open>The model call on a well-formed reply\<close>

lemma model_text_of_content:
  "map_of kvs (py ''message'') = Some (JObj m) \<Longrightarrow>
   map_of m (py ''content'') = Some (JStr content) \<Longrightarrow>
   model_text_of (JObj kvs) = Inr (strip content)"
  by (simp add: model_text_of_def dict_get_def)

lemma call_ollama_llama32_text:
  assumes "net OLLAMA_URL (chat_payload prompt) = Response status (Some data)"
    and "\<not> is_error_status status"
    and "model_text_of data = Inr model_text"
  shows "call_ollama_llama32 interp pf net prompt log =
           (parse_outcome model_text (json_loads interp pf model_text),
            log @ [(OLLAMA_URL, chat_payload prompt)])"
  using assms
  by (simp add: call_ollama_llama32_def Let_def parse_outcome_def split: sum.splits)

lemma call_ollama_llama32_reply:
  assumes "net OLLAMA_URL (chat_payload prompt) = Response status (Some (JObj kvs))"
    and "\<not> is_error_status status"
    and "map_of kvs (py ''message'') = Some (JObj m)"
    and "map_of m (py ''content'') = Some (JStr content)"
  shows "call_ollama_llama32 interp pf net prompt log =
           (parse_outcome (strip content) (json_loads interp pf (strip content)),
            log @ [(OLLAMA_URL, chat_payload prompt)])"
  using assms(1,2) model_text_of_content [OF assms(3,4)]
  by (rule call_ollama_llama32_text)

lemma pipeline_reply:
  assumes "extract_text_from_pdf fspath fs pdf_path = Inr pdf_text"
    and "net OLLAMA_URL (chat_payload (prompt_of pdf_text)) = Response status (Some (JObj kvs))"
    and "\<not> is_error_status status"
    and "map_of kvs (py ''message'') = Some (JObj m)"
    and "map_of m (py ''content'') = Some (JStr content)"
  shows "pipeline prompt_of interp pf fspath fs net pdf_path log =
           (parse_outcome (strip content) (json_loads interp pf (strip content)),
            log @ [(OLLAMA_URL, chat_payload (prompt_of pdf_text))])"
  using assms by (simp add: pipeline_def call_ollama_llama32_reply)

lemma call_ollama_llama32_log:
  "snd (call_ollama_llama32 interp pf net prompt log) = log @ [(OLLAMA_URL, chat_payload prompt)]"
  by (simp add: call_ollama_llama32_def Let_def split: response.splits option.splits sum.splits)

subsection \<open>Evaluating the model on sample inputs\<close>

lemmas json_eval =
  json_loads_def skip_ws_def is_ws_def scan_once.simps JSONObject_loop.simps
  JSONArray_loop.simps append_char_def match_number_def match_integer_def match_fraction_def
  match_exponent_def is_digit_def dict_def parse_int_def int_of_digits_def Let_def
  BACKSLASH_def decode_uXXXX_def hex_val_def int_too_long_def

lemma reply_body_message:
  "map_of (reply_body content) (py ''message'') = Some (JObj (reply_message content))"
  by (simp add: reply_body_def py_def)

lemma reply_message_content:
  "map_of (reply_message content) (py ''content'') = Some (JStr content)"
  by (simp add: reply_message_def py_def)

lemma ok_status: "\<not> is_error_status 200"
  by (simp add: is_error_status_def)

lemmas reply_simps = ollama_reply_def reply_body_message reply_message_content ok_status

lemma call_ollama_llama32_ollama_reply:
  "call_ollama_llama32 interp pf (ollama_reply content) prompt log =
     (parse_outcome (strip content) (json_loads interp pf (strip content)),
      log @ [(OLLAMA_URL, chat_payload prompt)])"
  using call_ollama_llama32_reply [where net = "ollama_reply content" and status = 200
      and kvs = "reply_body content" and m = "reply_message content" and content = content
      and pf = pf and prompt = prompt and log = log and interp = interp]
  by (simp add: reply_simps)

lemma strip_INVOICE_JSON: "strip INVOICE_JSON = INVOICE_JSON"
  by (simp add: strip_def INVOICE_JSON_def py_def isspace_def)

lemma loads_INVOICE_JSON:
  "json_loads interp pf INVOICE_JSON =
     Inr (JObj [(py ''invoice_number'', JStr (py ''INV-001'')),
                (py ''invoice_date'', JNull),
                (py ''customer_name'', JStr (py ''Acme'')),
                (py ''total_amount'', JFloat (pf (py ''100.5''))),
                (py ''currency'', JStr (py ''USD''))])"
  by (simp add: INVOICE_JSON_def py_def json_eval)

lemma extract_one_page:
  "extract_text_from_pdf fspath ONE_PAGE path = Inr (py ''Invoice INV-001'')"
  by (simp add: extract_text_from_pdf_def Let_def ONE_PAGE_def page_text_def strip_def py_def
        isspace_def)

lemma strip_noop_examples:
  \<open>strip (py ''{"a":1}'') = py ''{"a":1}''\<close>
  \<open>strip (py ''Here is the result: {"a":1} Thanks!'') = py ''Here is the result: {"a":1} Thanks!''\<close>
  \<open>strip (py ''  I could not read the invoice.  '') = py ''I could not read the invoice.''\<close>
  \<open>strip (py ''[1, 2]'') = py ''[1, 2]''\<close>
  \<open>strip (py ''"hello"'') = py ''"hello"''\<close>
  by (simp_all add: strip_def py_def isspace_def)

lemma loads_examples:
  \<open>json_loads interp pf (py ''{"a":1}'') = Inr (JObj [(py ''a'', JInt 1)])\<close>
  \<open>json_loads interp pf (py ''Here is the result: {"a":1} Thanks!'') = Inl JSONDecodeError\<close>
  \<open>json_loads interp pf (py ''I could not read the invoice.'') = Inl JSONDecodeError\<close>
  \<open>json_loads interp pf (py ''[1, 2]'') = Inr (JArr [JInt 1, JInt 2])\<close>
  \<open>json_loads interp pf (py ''"hello"'') = Inr (JStr (py ''hello''))\<close>
  \<open>json_loads interp pf [] = Inl JSONDecodeError\<close>
  by (auto simp: py_def json_eval)

lemma recovery_candidate_example:
  \<open>spec_recovery_candidate (py ''Here is the result: {"a":1} Thanks!'') = py ''{"a":1}''\<close>
  by (simp add: spec_recovery_candidate_def py_def)

subsection \<open>What \<open>json.loads\<close> raises\<close>

lemma scan_once_errors:
  "scan_once interp pf depth s = Inl e \<Longrightarrow>
     e = JSONDecodeError \<or> e = RecursionError \<or> e = IntMaxStrDigitsError"
  "JSONArray_loop interp pf depth s = Inl e \<Longrightarrow>
     e = JSONDecodeError \<or> e = RecursionError \<or> e = IntMaxStrDigitsError"
  "JSONObject_loop interp pf depth s = Inl e \<Longrightarrow>
     e = JSONDecodeError \<or> e = RecursionError \<or> e = IntMaxStrDigitsError"
proof (induction interp pf depth s and interp pf depth s and interp pf depth s
       arbitrary: e and e and e rule: scan_once_JSONArray_loop_JSONObject_loop.induct)
  case (1 interp pf depth)
  then show ?case by (simp add: scan_once.simps)
next
  case (2 interp pf depth nextchar s)
  note eq = scan_once.simps(2) [of interp pf depth nextchar s]
  show ?case
  proof (cases "nextchar = 34")
    case True
    with "2.prems" [unfolded eq] show ?thesis
      by (auto split: option.splits)
  next
    case n34: False
    show ?thesis
    proof (cases "nextchar = 123")
      case True
      with n34 "2.prems" [unfolded eq] "2.IH"(1) [OF n34 True] show ?thesis
        by (auto split: list.splits if_splits sum.splits nat.splits)
    next
      case n123: False
      show ?thesis
      proof (cases "nextchar = 91")
        case True
        with n34 n123 "2.prems" [unfolded eq] "2.IH"(2) [OF n34 n123 True] show ?thesis
          by (auto split: list.splits if_splits sum.splits nat.splits)
      next
        case False
        with n34 n123 "2.prems" [unfolded eq] show ?thesis
          by (auto split: if_splits option.splits prod.splits)
      qed
    qed
  qed
next
  case (3 interp pf depth s)
  note eq = JSONArray_loop.simps [of interp pf depth s]
  from "3.prems" [unfolded eq] consider
      (in_value) "scan_once interp pf depth s = Inl e"
    | (in_syntax) "e = JSONDecodeError"
    | (in_rest) v s1 c s2 where "scan_once interp pf depth s = Inr (v, s1)"
        and "skip_ws s1 = c # s2" and "c \<noteq> 93" and "\<not> c \<noteq> 44"
        and "JSONArray_loop interp pf depth (skip_ws s2) = Inl e"
    by (auto split: list.splits if_splits sum.splits)
  then show ?case
  proof cases
    case in_value
    then show ?thesis by (rule "3.IH"(1))
  next
    case in_syntax
    then show ?thesis by simp
  next
    case in_rest
    show ?thesis by (rule "3.IH"(2) [OF in_rest(1) refl in_rest(2,3,4,5)])
  qed
next
  case (4 interp pf depth s)
  note eq = JSONObject_loop.simps [of interp pf depth s]
  from "4.prems" [unfolded eq] consider
      (in_syntax) "e = JSONDecodeError"
    | (in_value) key s1 c s2 where "scanstring s = Some (key, s1)"
        and "skip_ws s1 = c # s2" and "\<not> c \<noteq> 58"
        and "scan_once interp pf depth (skip_ws s2) = Inl e"
    | (in_rest) key s1 c s2 v s3 d s4 q s5 where "scanstring s = Some (key, s1)"
        and "skip_ws s1 = c # s2" and "\<not> c \<noteq> 58"
        and "scan_once interp pf depth (skip_ws s2) = Inr (v, s3)"
        and "skip_ws s3 = d # s4" and "d \<noteq> 125" and "\<not> d \<noteq> 44"
        and "skip_ws s4 = q # s5" and "\<not> q \<noteq> 34"
        and "JSONObject_loop interp pf depth s5 = Inl e"
    by (auto split: list.splits if_splits option.splits sum.splits)
  then show ?case
  proof cases
    case in_syntax
    then show ?thesis by simp
  next
    case in_value
    show ?thesis by (rule "4.IH"(1) [OF in_value(1) refl in_value(2,3,4)])
  next
    case in_rest
    show ?thesis
      by (rule "4.IH"(2) [OF in_rest(1) refl in_rest(2,3,4) refl in_rest(5,6,7,8,9,10)])
  qed
qed

lemma json_loads_errors:
  "json_loads interp pf s = Inl e \<Longrightarrow>
     e = JSONDecodeError \<or> e = RecursionError \<or> e = IntMaxStrDigitsError"
  by (auto simp: json_loads_def split: if_splits sum.splits dest: scan_once_errors(1))

subsection \<open>Valid JSON that the interpreter cannot take\<close>

lemma skip_ws_bracket [simp]:
  "skip_ws (91 # s) = 91 # s" "skip_ws (93 # s) = 93 # s" "skip_ws [] = []"
  by (simp_all add: skip_ws_def is_ws_def)

lemma scan_once_too_deep:
  "scan_once interp pf depth (replicate (Suc depth) 91 @ rest) = Inl RecursionError"
proof (induction depth)
  case 0
  show ?case by (simp add: scan_once.simps)
next
  case (Suc depth)
  have "JSONArray_loop interp pf depth (91 # replicate depth 91 @ rest) = Inl RecursionError"
    using Suc.IH by (simp add: JSONArray_loop.simps)
  then show ?case by (simp add: scan_once.simps)
qed

lemma scan_once_nested_arrays:
  "n < depth \<Longrightarrow>
   scan_once interp pf depth (replicate (Suc n) 91 @ replicate (Suc n) 93 @ rest) =
     Inr (nested_arrays n, rest)"
proof (induction n arbitrary: depth rest)
  case 0
  then obtain depth' where "depth = Suc depth'" by (cases depth) auto
  then show ?case by (simp add: scan_once.simps)
next
  case (Suc n)
  then obtain depth' where d: "depth = Suc depth'" and n: "n < depth'" by (cases depth) auto
  have "scan_once interp pf depth' (replicate (Suc n) 91 @ replicate (Suc n) 93 @ 93 # rest) =
          Inr (nested_arrays n, 93 # rest)"
    using n by (rule Suc.IH)
  then have "JSONArray_loop interp pf depth'
               (91 # replicate n 91 @ 93 # replicate n 93 @ 93 # rest) =
             Inr ([nested_arrays n], rest)"
    by (simp add: JSONArray_loop.simps replicate_app_Cons_same)
  then show ?case
    by (simp add: scan_once.simps d replicate_app_Cons_same)
qed

lemma json_loads_too_deep:
  "json_loads interp pf (replicate (nesting_headroom interp + 2) 91 @ rest) = Inl RecursionError"
  using scan_once_too_deep [of interp pf "Suc (nesting_headroom interp)" rest]
  by (simp add: json_loads_def)

lemma json_loads_nested_arrays:
  "n \<le> nesting_headroom interp \<Longrightarrow>
   json_loads interp pf (replicate (Suc n) 91 @ replicate (Suc n) 93) = Inr (nested_arrays n)"
  using scan_once_nested_arrays [of n "Suc (nesting_headroom interp)" interp pf "[]"]
  by (simp add: json_loads_def)

lemma takeWhile_digits: "takeWhile is_digit (replicate n 57) = replicate n 57"
  "dropWhile is_digit (replicate n 57) = []"
  by (induction n) (simp_all add: is_digit_def)

lemma match_number_nines:
  "match_number (replicate (Suc n) 57) = Some (replicate (Suc n) 57, [], [], [])"
  by (simp add: match_number_def match_integer_def match_fraction_def match_exponent_def
        takeWhile_digits is_digit_def)

lemma filter_digits: "filter is_digit (replicate n 57) = replicate n 57"
  by (induction n) (simp_all add: is_digit_def)

lemma json_loads_nines:
  "json_loads interp pf (replicate (Suc n) 57) =
     (if 0 < int_max_str_digits interp \<and> int_max_str_digits interp < Suc n
      then Inl IntMaxStrDigitsError
      else Inr (JInt (parse_int (replicate (Suc n) 57))))"
proof -
  have "scan_once interp pf depth (57 # replicate n 57) =
     (if 0 < int_max_str_digits interp \<and> int_max_str_digits interp < Suc n
      then Inl IntMaxStrDigitsError
      else Inr (JInt (parse_int (replicate (Suc n) 57)), []))" for depth
    using match_number_nines [of n] filter_digits [of "Suc n"]
    by (simp add: scan_once.simps int_too_long_def py_def)
  then show ?thesis
    by (simp add: json_loads_def skip_ws_def is_ws_def)
qed

lemma strip_no_space:
  assumes "s \<noteq> []" and "\<not> isspace (hd s)" and "\<not> isspace (last s)"
  shows "strip s = s"
proof -
  have "dropWhile isspace s = s"
    using assms(1,2) by (cases s) auto
  moreover have "dropWhile isspace (rev s) = rev s"
    using assms(1,3) by (cases s rule: rev_cases) auto
  ultimately show ?thesis by (simp add: strip_def)
qed

subsection \<open>The result is what \<open>json.loads\<close> returns\<close>

text \<open>
  C4: when the model's content is the five-key JSON text of the scenario, the pipeline of
  \<open>invoiceextract.py\<close> returns the parsed object as it is: the strings as strings,
  \<open>null\<close> as \<open>None\<close>, and \<open>100.5\<close> as the float \<open>float("100.5")\<close>.
\<close>

theorem invoice_json_returned_unchanged:
  assumes "extract_text_from_pdf fspath fs pdf_path = Inr pdf_text"
    and "net OLLAMA_URL (chat_payload (build_prompt pdf_text)) = Response status (Some (JObj kvs))"
    and "\<not> is_error_status status"
    and "map_of kvs (py ''message'') = Some (JObj m)"
    and "map_of m (py ''content'') = Some (JStr INVOICE_JSON)"
  shows "fst (extract_key_values_from_pdf interp pf fspath fs net pdf_path log) =
           Inr (JObj [(py ''invoice_number'', JStr (py ''INV-001'')),
                      (py ''invoice_date'', JNull),
                      (py ''customer_name'', JStr (py ''Acme'')),
                      (py ''total_amount'', JFloat (pf (py ''100.5''))),
                      (py ''currency'', JStr (py ''USD''))])"
  using assms pipeline_reply [where prompt_of = build_prompt and pf = pf and log = log
      and fs = fs and net = net and pdf_path = pdf_path and pdf_text = pdf_text
      and status = status and kvs = kvs and m = m and content = INVOICE_JSON
      and interp = interp and fspath = fspath]
  by (simp add: extract_key_values_from_pdf_def strip_INVOICE_JSON loads_INVOICE_JSON
        parse_outcome_def)

theorem invoice_json_returned_unchanged_witness:
  "fst (extract_key_values_from_pdf CPYTHON (\<lambda>lexeme. lexeme) posix_fspath ONE_PAGE
          (ollama_reply INVOICE_JSON) (py ''invoice.pdf'') []) =
     Inr (JObj [(py ''invoice_number'', JStr (py ''INV-001'')),
                (py ''invoice_date'', JNull),
                (py ''customer_name'', JStr (py ''Acme'')),
                (py ''total_amount'', JFloat (py ''100.5'')),
                (py ''currency'', JStr (py ''USD''))])"
  using invoice_json_returned_unchanged [where pf = "\<lambda>lexeme. lexeme"
      and fs = ONE_PAGE and fspath = posix_fspath and interp = CPYTHON
      and net = "ollama_reply INVOICE_JSON" and pdf_path = "py ''invoice.pdf''"
      and pdf_text = "py ''Invoice INV-001''" and status = 200
      and kvs = "reply_body INVOICE_JSON" and m = "reply_message INVOICE_JSON" and log = "[]"]
  by (simp add: extract_one_page reply_simps)

text \<open>
  C1, as the code has it: there is no schema in the parse step. Whenever the trimmed
  content parses, the pipeline returns the parsed value as it is, so its keys are those
  of the response: none dropped, none filled in, none rejected.
\<close>

theorem parsed_value_returned_as_is:
  assumes "extract_text_from_pdf fspath fs pdf_path = Inr pdf_text"
    and "net OLLAMA_URL (chat_payload (prompt_of pdf_text)) = Response status (Some (JObj kvs))"
    and "\<not> is_error_status status"
    and "map_of kvs (py ''message'') = Some (JObj m)"
    and "map_of m (py ''content'') = Some (JStr content)"
    and "json_loads interp pf (strip content) = Inr v"
  shows "fst (pipeline prompt_of interp pf fspath fs net pdf_path log) = Inr v
         \<and> (\<exists>result. fst (pipeline prompt_of interp pf fspath fs net pdf_path log) = Inr result
               \<and> json_keys result = json_keys v)"
  using assms pipeline_reply [where prompt_of = prompt_of and pf = pf and log = log
      and fs = fs and net = net and pdf_path = pdf_path and pdf_text = pdf_text
      and status = status and kvs = kvs and m = m and content = content
      and interp = interp and fspath = fspath]
  by (simp add: parse_outcome_def)

theorem parsed_value_returned_as_is_witness:
  \<open>fst (pipeline build_prompt CPYTHON (\<lambda>lexeme. lexeme) posix_fspath ONE_PAGE
          (ollama_reply (py ''{"a":1}'')) (py ''invoice.pdf'') []) = Inr (JObj [(py ''a'', JInt 1)])\<close>
  using parsed_value_returned_as_is [where pf = "\<lambda>lexeme. lexeme"
      and fs = ONE_PAGE and fspath = posix_fspath and interp = CPYTHON
      and prompt_of = build_prompt and content = \<open>py ''{"a":1}''\<close>
      and net = \<open>ollama_reply (py ''{"a":1}'')\<close> and pdf_path = "py ''invoice.pdf''"
      and pdf_text = "py ''Invoice INV-001''" and status = 200
      and kvs = \<open>reply_body (py ''{"a":1}'')\<close> and m = \<open>reply_message (py ''{"a":1}'')\<close>
      and log = "[]" and v = "JObj [(py ''a'', JInt 1)]"]
  by (simp add: extract_one_page reply_simps strip_noop_examples loads_examples)

text \<open>
  C1 as stated fails: a response with the one key \<open>a\<close> is returned with the one key
  \<open>a\<close>, which is not the key set the prompt asks for.
\<close>

theorem result_keys_not_schema_counterexample:
  \<open>fst (extract_key_values_from_pdf CPYTHON (\<lambda>lexeme. lexeme) posix_fspath ONE_PAGE
          (ollama_reply (py ''{"a":1}'')) (py ''invoice.pdf'') []) = Inr (JObj [(py ''a'', JInt 1)])
   \<and> set (json_keys (JObj [(py ''a'', JInt 1)] :: pystr json)) \<noteq> set REQUIRED_KEYS\<close>
proof -
  have "py ''invoice_number'' \<in> set REQUIRED_KEYS"
    by (simp add: REQUIRED_KEYS_def)
  moreover have "py ''invoice_number'' \<notin> set (json_keys (JObj [(py ''a'', JInt 1)] :: pystr json))"
    by (simp add: json_keys_def py_def)
  ultimately have "set (json_keys (JObj [(py ''a'', JInt 1)] :: pystr json)) \<noteq> set REQUIRED_KEYS"
    by blast
  then show ?thesis
    by (simp add: extract_key_values_from_pdf_def pipeline_def extract_one_page
          call_ollama_llama32_ollama_reply strip_noop_examples loads_examples parse_outcome_def)
qed

text \<open>
  C10, as the code has it: the call checks nothing but what \<open>json.loads\<close> makes of the
  trimmed text. Whatever value it yields is returned, an array or a bare string as well
  as an object; the call's own \<open>ValueError\<close> is raised exactly when \<open>json.loads\<close>
  raises \<open>JSONDecodeError\<close>; any other error of \<open>json.loads\<close> leaves the call as it
  is; and the pipeline returns what the call returns.
\<close>

theorem parse_step_follows_json_loads:
  assumes "extract_text_from_pdf fspath fs pdf_path = Inr pdf_text"
    and "net OLLAMA_URL (chat_payload (build_prompt pdf_text)) = Response status (Some data)"
    and "\<not> is_error_status status"
    and "model_text_of data = Inr model_text"
  shows "fst (call_ollama_llama32 interp pf net (build_prompt pdf_text) log) =
           (case json_loads interp pf model_text of
              Inl e \<Rightarrow>
                if e = JSONDecodeError then Inl (ValueError (invalid_json_message model_text))
                else Inl e
            | Inr result \<Rightarrow> Inr result)
         \<and> fst (extract_key_values_from_pdf interp pf fspath fs net pdf_path log) =
             fst (call_ollama_llama32 interp pf net (build_prompt pdf_text) log)
         \<and> ((\<exists>msg. fst (call_ollama_llama32 interp pf net (build_prompt pdf_text) log) =
                     Inl (ValueError msg))
               \<longleftrightarrow> json_loads interp pf model_text = Inl JSONDecodeError)"
proof -
  have run: "call_ollama_llama32 interp pf net (build_prompt pdf_text) log =
      (parse_outcome model_text (json_loads interp pf model_text),
       log @ [(OLLAMA_URL, chat_payload (build_prompt pdf_text))])"
    using assms(2,3,4) by (rule call_ollama_llama32_text)
  have "(\<exists>msg. parse_outcome model_text (json_loads interp pf model_text) = Inl (ValueError msg))
          \<longleftrightarrow> json_loads interp pf model_text = Inl JSONDecodeError"
    using json_loads_errors [of interp pf model_text]
    by (cases "json_loads interp pf model_text") (auto simp: parse_outcome_def)
  then show ?thesis
    using assms(1)
    by (simp add: run extract_key_values_from_pdf_def pipeline_def parse_outcome_def)
qed

theorem parse_step_follows_json_loads_witness:
  \<open>fst (extract_key_values_from_pdf CPYTHON (\<lambda>lexeme. lexeme) posix_fspath ONE_PAGE
          (ollama_reply (py ''[1, 2]'')) (py ''invoice.pdf'') []) = Inr (JArr [JInt 1, JInt 2])
   \<and> fst (extract_key_values_from_pdf CPYTHON (\<lambda>lexeme. lexeme) posix_fspath ONE_PAGE
          (ollama_reply (py ''"hello"'')) (py ''invoice.pdf'') []) = Inr (JStr (py ''hello''))
   \<and> fst (extract_key_values_from_pdf CPYTHON (\<lambda>lexeme. lexeme) posix_fspath ONE_PAGE
          (\<lambda>url p. Response 200 (Some (JObj []))) (py ''invoice.pdf'') []) =
       Inl (ValueError (py ''Model did not return valid JSON. Raw output:\<newline>''))\<close>
proof -
  have text_of: "model_text_of (JObj (reply_body content) :: pystr json) = Inr (strip content)"
    for content
    by (simp add: model_text_of_content reply_simps)
  have no_message: "model_text_of (JObj [] :: pystr json) = Inr []"
    by (simp add: model_text_of_def dict_get_def strip_def)
  show ?thesis
    using parse_step_follows_json_loads [where pf = "\<lambda>lexeme. lexeme"
        and fs = ONE_PAGE and fspath = posix_fspath and interp = CPYTHON
        and net = \<open>ollama_reply (py ''[1, 2]'')\<close> and pdf_path = "py ''invoice.pdf''"
        and pdf_text = "py ''Invoice INV-001''" and status = 200
        and data = \<open>JObj (reply_body (py ''[1, 2]''))\<close> and model_text = \<open>py ''[1, 2]''\<close>
        and log = "[]"]
      parse_step_follows_json_loads [where pf = "\<lambda>lexeme. lexeme"
        and fs = ONE_PAGE and fspath = posix_fspath and interp = CPYTHON
        and net = \<open>ollama_reply (py ''"hello"'')\<close> and pdf_path = "py ''invoice.pdf''"
        and pdf_text = "py ''Invoice INV-001''" and status = 200
        and data = \<open>JObj (reply_body (py ''"hello"''))\<close> and model_text = \<open>py ''"hello"''\<close>
        and log = "[]"]
      parse_step_follows_json_loads [where pf = "\<lambda>lexeme. lexeme"
        and fs = ONE_PAGE and fspath = posix_fspath and interp = CPYTHON
        and net = \<open>\<lambda>url p. Response 200 (Some (JObj []))\<close> and pdf_path = "py ''invoice.pdf''"
        and pdf_text = "py ''Invoice INV-001''" and status = 200
        and data = \<open>JObj []\<close> and model_text = \<open>[]\<close>
        and log = "[]"]
    by (simp add: extract_one_page ok_status ollama_reply_def text_of no_message
          strip_noop_examples loads_examples invalid_json_message_def)
qed

text \<open>
  C10 as stated fails: valid JSON is not always accepted, and what is raised then is
  not the call's \<open>ValueError\<close>. With the limits CPython ships, 100000 arrays one
  inside the other end the call with \<open>RecursionError\<close>, and an integer of 4301 digits
  ends it with the error of \<open>int\<close>; an interpreter with the limit lifted parses the
  text.
\<close>

theorem valid_json_not_accepted_counterexample:
  "fst (call_ollama_llama32 CPYTHON (\<lambda>lexeme. lexeme)
          (ollama_reply (replicate 100000 91 @ replicate 100000 93)) (py ''prompt'') []) =
     Inl RecursionError
   \<and> json_loads (CPYTHON\<lparr>nesting_headroom := 99999\<rparr>) (\<lambda>lexeme. lexeme)
         (replicate 100000 91 @ replicate 100000 93) = Inr (nested_arrays 99999)
   \<and> fst (call_ollama_llama32 CPYTHON (\<lambda>lexeme. lexeme)
          (ollama_reply (replicate 4301 57)) (py ''prompt'') []) = Inl IntMaxStrDigitsError
   \<and> json_loads (CPYTHON\<lparr>int_max_str_digits := 0\<rparr>) (\<lambda>lexeme. lexeme) (replicate 4301 57) =
       Inr (JInt (parse_int (replicate 4301 57)))"
proof -
  have "(100000::nat) = (nesting_headroom CPYTHON + 2) + 98998"
    by (simp add: CPYTHON_def)
  then have deep: "replicate 100000 91 @ replicate 100000 93 =
      replicate (nesting_headroom CPYTHON + 2) (91::nat)
        @ (replicate 98998 91 @ replicate 100000 93)"
    by (simp only: replicate_add append_assoc)
  have next_deep: "(100000::nat) = Suc 99999" and long: "(4301::nat) = Suc 4300"
    by simp_all
  have s1: "strip (replicate 100000 91 @ replicate 100000 93) =
      replicate 100000 91 @ replicate 100000 93"
    by (rule strip_no_space) (simp_all add: isspace_def)
  have s2: "strip (replicate 4301 57) = replicate 4301 57"
    by (rule strip_no_space) (simp_all add: isspace_def)
  have l1: "json_loads CPYTHON (\<lambda>lexeme. lexeme) (replicate 100000 91 @ replicate 100000 93) =
      Inl RecursionError"
    unfolding deep by (rule json_loads_too_deep)
  have l2: "json_loads (CPYTHON\<lparr>nesting_headroom := 99999\<rparr>) (\<lambda>lexeme. lexeme)
         (replicate 100000 91 @ replicate 100000 93) = Inr (nested_arrays 99999)"
    unfolding next_deep by (rule json_loads_nested_arrays) simp
  have l3: "json_loads CPYTHON (\<lambda>lexeme. lexeme) (replicate 4301 57) = Inl IntMaxStrDigitsError"
    unfolding long by (simp only: json_loads_nines) (simp add: CPYTHON_def)
  have l4: "json_loads (CPYTHON\<lparr>int_max_str_digits := 0\<rparr>) (\<lambda>lexeme. lexeme)
      (replicate 4301 57) = Inr (JInt (parse_int (replicate 4301 57)))"
    unfolding long by (simp only: json_loads_nines) simp
  show ?thesis
    by (simp only: call_ollama_llama32_ollama_reply s1 s2 l1 l2 l3 l4 parse_outcome_def)
       simp
qed

subsection \<open>Text that is not JSON\<close>

text \<open>
  C2, as the code has it: when \<open>json.loads\<close> rejects the trimmed content, that is
  final. The call raises its \<open>ValueError\<close> at once and returns nothing, whatever the
  part of the text between the first opening and the last closing brace parses to.
\<close>

theorem strict_parse_failure_is_final:
  assumes "net OLLAMA_URL (chat_payload prompt) = Response status (Some (JObj kvs))"
    and "\<not> is_error_status status"
    and "map_of kvs (py ''message'') = Some (JObj m)"
    and "map_of m (py ''content'') = Some (JStr content)"
    and "json_loads interp pf (strip content) = Inl JSONDecodeError"
  shows "fst (call_ollama_llama32 interp pf net prompt log) =
           Inl (ValueError (invalid_json_message (strip content)))
         \<and> (\<forall>v. json_loads interp pf (spec_recovery_candidate (strip content)) = Inr v \<longrightarrow>
                fst (call_ollama_llama32 interp pf net prompt log) \<noteq> Inr v)"
  using assms call_ollama_llama32_reply [where net = net and prompt = prompt and status = status
      and kvs = kvs and m = m and content = content and pf = pf and log = log
      and interp = interp]
  by (simp add: parse_outcome_def)

theorem strict_parse_failure_is_final_witness:
  \<open>fst (call_ollama_llama32 CPYTHON (\<lambda>lexeme. lexeme)
          (ollama_reply (py ''Here is the result: {"a":1} Thanks!'')) (py ''prompt'') []) =
     Inl (ValueError (invalid_json_message (py ''Here is the result: {"a":1} Thanks!'')))
   \<and> fst (call_ollama_llama32 CPYTHON (\<lambda>lexeme. lexeme)
          (ollama_reply (py ''Here is the result: {"a":1} Thanks!'')) (py ''prompt'') []) \<noteq>
     Inr (JObj [(py ''a'', JInt 1)])\<close>
  using strict_parse_failure_is_final [where pf = "\<lambda>lexeme. lexeme" and interp = CPYTHON
      and net = \<open>ollama_reply (py ''Here is the result: {"a":1} Thanks!'')\<close>
      and prompt = "py ''prompt''" and status = 200
      and content = \<open>py ''Here is the result: {"a":1} Thanks!''\<close>
      and kvs = \<open>reply_body (py ''Here is the result: {"a":1} Thanks!'')\<close>
      and m = \<open>reply_message (py ''Here is the result: {"a":1} Thanks!'')\<close>
      and log = "[]"]
  by (simp add: reply_simps strip_noop_examples loads_examples recovery_candidate_example)

text \<open>
  C2 as stated fails: on the spec's own example the call raises, although the braces
  enclose the object the spec expects to be recovered.
\<close>

theorem no_recovery_counterexample:
  \<open>fst (call_ollama_llama32 CPYTHON (\<lambda>lexeme. lexeme)
          (ollama_reply (py ''Here is the result: {"a":1} Thanks!'')) (py ''prompt'') []) =
     Inl (ValueError (invalid_json_message (py ''Here is the result: {"a":1} Thanks!'')))
   \<and> json_loads CPYTHON (\<lambda>lexeme. lexeme)
         (spec_recovery_candidate (py ''Here is the result: {"a":1} Thanks!'')) =
       Inr (JObj [(py ''a'', JInt 1)])\<close>
  by (simp add: call_ollama_llama32_ollama_reply strip_noop_examples loads_examples
        recovery_candidate_example parse_outcome_def)




subsection \<open>Missing input file\<close>

text \<open>
  C3, as the code has it: when \<open>Path.exists()\<close> answers no, the pipeline (of each
  script) ends with \<open>FileNotFoundError\<close>, whose message names the path as \<open>Path\<close>
  writes it; when the path cannot be examined it ends with the \<open>OSError\<close> of the
  examination. Either way the log of requests is as it was: started with no request
  made, the run makes none.
\<close>

theorem missing_file_no_request:
  assumes "fs (fspath pdf_path) = Missing \<or> fs (fspath pdf_path) = StatFails"
  shows "extract_key_values_from_pdf interp pf fspath fs net pdf_path log =
           (Inl (if fs (fspath pdf_path) = Missing
                 then FileNotFoundError (py ''PDF not found: '' @ fspath pdf_path)
                 else OSError), log)
         \<and> extract_key_values_from_pdf_v1 interp pf fspath fs net pdf_path log =
           (Inl (if fs (fspath pdf_path) = Missing
                 then FileNotFoundError (py ''PDF not found: '' @ fspath pdf_path)
                 else OSError), log)
         \<and> length (snd (extract_key_values_from_pdf interp pf fspath fs net pdf_path [])) = 0
         \<and> length (snd (extract_key_values_from_pdf_v1 interp pf fspath fs net pdf_path [])) = 0"
  using assms
  by (auto simp: extract_key_values_from_pdf_def extract_key_values_from_pdf_v1_def pipeline_def
        extract_text_from_pdf_def Let_def)

theorem missing_file_no_request_witness:
  "extract_key_values_from_pdf CPYTHON (\<lambda>lexeme. lexeme) posix_fspath EMPTY_DISK
        (ollama_reply INVOICE_JSON) (py ''invoice.pdf'') [] =
     (Inl (FileNotFoundError (py ''PDF not found: '' @ py ''invoice.pdf'')), [])
   \<and> extract_key_values_from_pdf CPYTHON (\<lambda>lexeme. lexeme) posix_fspath EMPTY_DISK
        (ollama_reply INVOICE_JSON) (py ''./missing.pdf'') [] =
     (Inl (FileNotFoundError (py ''PDF not found: '' @ py ''missing.pdf'')), [])"
proof -
  have p: "posix_fspath (py ''invoice.pdf'') = py ''invoice.pdf''"
    "posix_fspath (py ''./missing.pdf'') = py ''missing.pdf''"
    by (simp_all add: posix_fspath_def py_def)
  have e: "EMPTY_DISK (py ''invoice.pdf'') = Missing"
    "EMPTY_DISK (py ''missing.pdf'') = Missing"
    by (simp_all add: EMPTY_DISK_def NAME_MAX_def py_def)
  show ?thesis
    using missing_file_no_request [where fs = EMPTY_DISK and pdf_path = "py ''invoice.pdf''"
        and interp = CPYTHON and pf = "\<lambda>lexeme. lexeme" and fspath = posix_fspath
        and net = "ollama_reply INVOICE_JSON" and log = "[]"]
      missing_file_no_request [where fs = EMPTY_DISK and pdf_path = "py ''./missing.pdf''"
        and interp = CPYTHON and pf = "\<lambda>lexeme. lexeme" and fspath = posix_fspath
        and net = "ollama_reply INVOICE_JSON" and log = "[]"]
    by (simp add: e p)
qed

text \<open>
  C3 as stated fails: a path that names no file is not always reported as not found. A
  name of 5000 letters \<open>x\<close> names no file, on a disk that holds none; the run ends with
  the \<open>OSError\<close> of \<open>Path.exists()\<close>, not with \<open>FileNotFoundError\<close>.
\<close>

theorem unexaminable_path_counterexample:
  "extract_key_values_from_pdf CPYTHON (\<lambda>lexeme. lexeme) posix_fspath EMPTY_DISK
        (ollama_reply INVOICE_JSON) (replicate 5000 120) [] = (Inl OSError, [])
   \<and> fst (extract_key_values_from_pdf CPYTHON (\<lambda>lexeme. lexeme) posix_fspath EMPTY_DISK
        (ollama_reply INVOICE_JSON) (replicate 5000 120) []) \<noteq>
       Inl (FileNotFoundError (py ''PDF not found: '' @ posix_fspath (replicate 5000 120)))"
proof -
  have parts: "split_sep 47 (replicate n 120) = [replicate n 120]" for n
    by (induction n) simp_all
  define p :: pystr where "p = replicate 5000 120"
  have "p = 120 # replicate 4999 120"
    unfolding p_def by (simp only: replicate_Suc [symmetric]) simp
  then have "take 1 p \<noteq> py ''/''" "p \<noteq> []" "p \<noteq> py ''.''"
    by (simp_all add: py_def)
  moreover have "split_sep 47 p = [p]"
    unfolding p_def by (rule parts)
  ultimately have "posix_fspath p = p"
    by (simp add: posix_fspath_def)
  then have "posix_fspath (replicate 5000 120) = replicate 5000 120"
    by (simp only: p_def)
  then have "EMPTY_DISK (posix_fspath (replicate 5000 120)) = StatFails"
    by (simp add: EMPTY_DISK_def NAME_MAX_def parts)
  then show ?thesis
    by (simp add: extract_key_values_from_pdf_def pipeline_def extract_text_from_pdf_def Let_def)
qed

subsection \<open>The prompt\<close>



subsection \<open>The extracted text\<close>

lemma join_Cons: "join sep (p # ps) = p @ concat (map (\<lambda>q. sep @ q) ps)"
  by (induction ps arbitrary: p) simp_all

lemma join_blank_line_joined: "join (py ''\<newline>\<newline>'') ps = blank_line_joined ps"
  by (cases ps) (simp_all add: join_Cons)

lemma page_text_option: "page_text t = (case t of None \<Rightarrow> [] | Some s \<Rightarrow> s)"
  by (simp add: page_text_def split: option.splits)

lemma strip_Nil_or_trimmed:
  "strip s = [] \<or> (\<not> isspace (hd (strip s)) \<and> \<not> isspace (last (strip s)))"
proof (cases "strip s = []")
  case True
  then show ?thesis by simp
next
  case False
  define l where "l = dropWhile isspace s"
  define r where "r = dropWhile isspace (rev l)"
  have st: "strip s = rev r" by (simp add: strip_def l_def r_def)
  from False have r: "r \<noteq> []" by (simp add: st)
  have l: "l \<noteq> []"
  proof
    assume "l = []"
    then have "r = []" by (simp add: r_def)
    with r show False by simp
  qed
  have "last (strip s) = hd r" using r by (simp add: st last_rev)
  then have a: "\<not> isspace (last (strip s))"
    using r hd_dropWhile [of isspace "rev l"] by (simp add: r_def)
  obtain pre where pre: "rev l = pre @ r"
    using takeWhile_dropWhile_id [of isspace "rev l"] unfolding r_def by metis
  have "hd (strip s) = last r" using r by (simp add: st hd_rev)
  also have "\<dots> = last (rev l)" using r pre by simp
  also have "\<dots> = hd l" using l by (simp add: last_rev)
  finally have "\<not> isspace (hd (strip s))"
    using l hd_dropWhile [of isspace s] by (simp add: l_def)
  with a show ?thesis by simp
qed

text \<open>
  C6: for a file \<open>PdfReader\<close> accepts, extraction succeeds whatever the pages yield.
  The result is the page texts in page order, a page without text counting as the empty
  string, with a blank line between consecutive pages, trimmed: it is empty or begins
  and ends with a character that is not white space. The pipeline goes on with the
  prompt built from it, empty or not, and makes its one request with that prompt.
\<close>

theorem extract_text_joins_pages:
  assumes "fs (fspath pdf_path) = Present (PdfFile pages)"
  shows "\<exists>pdf_text.
           extract_text_from_pdf fspath fs pdf_path = Inr pdf_text
         \<and> pdf_text = strip (blank_line_joined (map (\<lambda>t. case t of None \<Rightarrow> [] | Some s \<Rightarrow> s) pages))
         \<and> (pdf_text = [] \<or> (\<not> isspace (hd pdf_text) \<and> \<not> isspace (last pdf_text)))
         \<and> pipeline prompt_of interp pf fspath fs net pdf_path log =
             call_ollama_llama32 interp pf net (prompt_of pdf_text) log
         \<and> snd (pipeline prompt_of interp pf fspath fs net pdf_path log) =
             log @ [(OLLAMA_URL, chat_payload (prompt_of pdf_text))]"
proof -
  have eq: "map page_text pages = map (\<lambda>t. case t of None \<Rightarrow> [] | Some s \<Rightarrow> s) pages"
    by (simp add: page_text_option)
  show ?thesis
    using assms strip_Nil_or_trimmed
    by (simp add: extract_text_from_pdf_def Let_def pipeline_def join_blank_line_joined eq
          call_ollama_llama32_log)
qed

theorem extract_text_joins_pages_witness:
  "extract_text_from_pdf posix_fspath
      (\<lambda>p. Present (PdfFile [Some (py '' Invoice ''), None, Some (py ''Total 100.5''), Some []]))
      (py ''invoice.pdf'') = Inr (py ''Invoice \<newline>\<newline>\<newline>\<newline>Total 100.5'')
   \<and> extract_text_from_pdf posix_fspath (\<lambda>p. Present (PdfFile [None, Some (py '' '')]))
        (py ''scan.pdf'') = Inr []
   \<and> snd (extract_key_values_from_pdf CPYTHON (\<lambda>lexeme. lexeme) posix_fspath
             (\<lambda>p. Present (PdfFile [None, Some (py '' '')]))
             (ollama_reply (py ''{}'')) (py ''scan.pdf'') []) =
       [(OLLAMA_URL, chat_payload (build_prompt []))]"
proof -
  have a: "strip (py '' Invoice \<newline>\<newline>\<newline>\<newline>Total 100.5\<newline>\<newline>'') = py ''Invoice \<newline>\<newline>\<newline>\<newline>Total 100.5''"
    by (simp add: strip_def py_def isspace_def)
  have b: "strip (py ''\<newline>\<newline> '') = []"
    by (simp add: strip_def py_def isspace_def)
  have c: "py '' Invoice '' @ py ''\<newline>\<newline>'' @ py ''\<newline>\<newline>'' @ py ''Total 100.5'' @ py ''\<newline>\<newline>'' = py '' Invoice \<newline>\<newline>\<newline>\<newline>Total 100.5\<newline>\<newline>''"
    "py ''\<newline>\<newline>'' @ py '' '' = py ''\<newline>\<newline> ''"
    by (simp_all add: py_def)
  show ?thesis
    using extract_text_joins_pages [where fs = "\<lambda>p. Present (PdfFile [Some (py '' Invoice ''), None, Some (py ''Total 100.5''), Some []])"
        and pdf_path = "py ''invoice.pdf''" and prompt_of = build_prompt and pf = "\<lambda>lexeme. lexeme"
        and net = "ollama_reply (py ''{}'')" and log = "[]" and fspath = posix_fspath
        and interp = CPYTHON
        and pages = "[Some (py '' Invoice ''), None, Some (py ''Total 100.5''), Some []]"]
      extract_text_joins_pages [where fs = "\<lambda>p. Present (PdfFile [None, Some (py '' '')])"
        and pdf_path = "py ''scan.pdf''" and prompt_of = build_prompt and pf = "\<lambda>lexeme. lexeme"
        and net = "ollama_reply (py ''{}'')" and log = "[]" and fspath = posix_fspath
        and interp = CPYTHON
        and pages = "[None, Some (py '' '')]"]
    by (simp add: a b c extract_key_values_from_pdf_def call_ollama_llama32_log)
qed

subsection \<open>Counting pages by blank lines\<close>































end
